theory Spec2Isabelle
  imports Main "HOL-Library.Sublist"
begin

section \<open>Go values used by the DigitalOcean cloud provider\<close>

text \<open>
  Error values. The first four are the package-level variables of the provider,
  \<open>InstanceNotFound\<close> is \<open>cloudprovider.InstanceNotFound\<close>,
  \<open>DeletedVolumeInUseError\<close> is what \<open>volume.NewDeletedVolumeInUseError\<close> builds,
  \<open>ErrorString\<close> is a value of \<open>errors.New\<close> or \<open>fmt.Errorf\<close>, and \<open>External\<close>
  stands for any error a collaborator hands back (the vendor SDK, the HTTP client,
  \<open>strconv\<close>).
\<close>

datatype error =
    ErrNotFound
  | ErrMultipleResults
  | ErrNoAddressFound
  | ErrAttrNotFound
  | InstanceNotFound
  | DeletedVolumeInUseError string
  | ErrorString string
  | External string

text \<open>A call either returns or panics; a panic carries its message.\<close>

datatype 'a outcome = Returned 'a | Panicked string

subsection \<open>Strings\<close>

text \<open>\<open>strings.Contains s substr\<close>: \<open>substr\<close> occurs in \<open>s\<close> as a contiguous run of bytes.\<close>

definition Contains :: "string \<Rightarrow> string \<Rightarrow> bool" where
  "Contains s substr = sublist substr s"

text \<open>
  \<open>strings.ToLower\<close> maps every Unicode letter to its lower case. It is not
  modelled: each definition below that calls it takes it as its first argument
  \<open>ToLower\<close>, and the theorems about those definitions hold for whatever function
  it is.
\<close>

text \<open>\<open>strconv.Itoa\<close>: the decimal text of an integer, with a minus sign when negative.\<close>

fun digits :: "nat \<Rightarrow> string" where
  "digits n =
     (if n < 10 then [char_of (48 + n)]
      else digits (n div 10) @ [char_of (48 + n mod 10)])"

declare digits.simps [simp del]

definition Itoa :: "int \<Rightarrow> string" where
  "Itoa i = (if i < 0 then CHR ''-'' # digits (nat (- i)) else digits (nat i))"

text \<open>
  \<open>strconv.Atoi\<close> for a 64-bit \<open>int\<close>: an optional sign, then at least one decimal
  digit and nothing else; a value outside the 64-bit range is an error.
\<close>

definition is_digit :: "char \<Rightarrow> bool" where
  "is_digit c = ((48::nat) \<le> of_char c \<and> of_char c \<le> (57::nat))"

fun digits_value :: "nat \<Rightarrow> string \<Rightarrow> nat" where
  "digits_value acc [] = acc"
| "digits_value acc (c # cs) = digits_value (acc * 10 + (of_char c - 48)) cs"

definition parse_unsigned :: "string \<Rightarrow> nat option" where
  "parse_unsigned s =
     (if s \<noteq> [] \<and> list_all is_digit s then Some (digits_value 0 s) else None)"

definition Atoi :: "string \<Rightarrow> error + int" where
  "Atoi s =
     (case s of
        [] \<Rightarrow> Inl (External ''strconv.Atoi: invalid syntax'')
      | c # cs \<Rightarrow>
          (let neg = (c = CHR ''-'');
               body = (if c = CHR ''-'' \<or> c = CHR ''+'' then cs else s)
           in case parse_unsigned body of
                None \<Rightarrow> Inl (External ''strconv.Atoi: invalid syntax'')
              | Some n \<Rightarrow>
                  (if neg then
                     (if int n \<le> 9223372036854775808 then Inr (- int n)
                      else Inl (External ''strconv.Atoi: value out of range''))
                   else
                     (if int n \<le> 9223372036854775807 then Inr (int n)
                      else Inl (External ''strconv.Atoi: value out of range'')))))"

section \<open>The vendor SDK as the provider sees it\<close>

text \<open>
  A droplet as \<open>godo.Droplet\<close> shows it to the provider. \<open>PrivateIPv4\<close> and
  \<open>PublicIPv4\<close> hold what the accessor methods of the same name return: an address,
  or the accessor's error. \<open>Size\<close> is a pointer in the SDK, so it may be nil.
\<close>

record Size =
  Slug :: string

record Droplet =
  ID :: int
  Name :: string
  Size :: "Size option"
  PrivateIPv4 :: "error + string"
  PublicIPv4 :: "error + string"

record ListOptions =
  Page :: int
  PerPage :: int

record Volume =
  ID :: string
  Name :: string
  DropletIDs :: "int list"

text \<open>
  The endpoints of \<open>*godo.Client\<close> that the provider calls. During one call of a
  provider method the vendor's answer is a function of the request. \<open>Storage_GetVolume\<close>
  answers a \<open>*godo.Volume\<close> and an error, each of which may be nil independently of
  the other.
\<close>

record godo_Client =
  Account_Get :: "error option"
  Droplets_List :: "ListOptions \<Rightarrow> error + Droplet list"
  Storage_GetVolume :: "string \<Rightarrow> Volume option \<times> error option"
  Storage_DeleteVolume :: "string \<Rightarrow> error option"
  StorageActions_Attach :: "string \<Rightarrow> int \<Rightarrow> error option"

text \<open>
  What lies outside the process: the client \<open>godo.NewClient\<close> yields for an access
  token, and \<open>http.Get\<close> followed by \<open>ioutil.ReadAll\<close> on the body (the error of
  \<open>ReadAll\<close> is dropped by the provider, so only the bytes read count).
\<close>

record World =
  godo_NewClient :: "string \<Rightarrow> godo_Client"
  http_Get :: "string \<Rightarrow> error + string"

section \<open>The provider\<close>

record doInstance =
  dropletID :: int
  region :: string

record DigitalOcean =
  provider :: godo_Client
  region :: string
  selfDOInstance :: "doInstance option"

record Config =
  ApiKey :: string
  Region :: string

subsection \<open>Construction\<close>

definition buildSelfDOInstance ::
  "DigitalOcean \<Rightarrow> World \<Rightarrow> (error + doInstance) outcome" where
  "buildSelfDOInstance do w =
     (if selfDOInstance do \<noteq> None then Panicked ''do not call buildSelfDOInstance directly''
      else case http_Get w ''http://169.254.169.254/metadata/v1/region'' of
        Inl err \<Rightarrow> Returned (Inl err)
      | Inr regionBytes \<Rightarrow>
          (case http_Get w ''http://169.254.169.254/metadata/v1/id'' of
             Inl err \<Rightarrow> Returned (Inl err)
           | Inr idBytes \<Rightarrow>
               (case Atoi idBytes of
                  Inl err \<Rightarrow> Returned (Inl err)
                | Inr intDropletID \<Rightarrow>
                    Returned (Inr \<lparr>dropletID = intDropletID,
                                   doInstance.region = regionBytes\<rparr>))))"

definition newDigitalOcean :: "World \<Rightarrow> Config \<Rightarrow> (error + DigitalOcean) outcome" where
  "newDigitalOcean w cfg =
     (let client = godo_NewClient w (ApiKey cfg) in
      case Account_Get client of
        Some err \<Rightarrow> Returned (Inl err)
      | None \<Rightarrow>
          (let do = \<lparr>provider = client, DigitalOcean.region = Region cfg,
                     selfDOInstance = None\<rparr>
           in case buildSelfDOInstance do w of
                Panicked msg \<Rightarrow> Panicked msg
              | Returned (Inl err) \<Rightarrow> Returned (Inl err)
              | Returned (Inr self) \<Rightarrow> Returned (Inr do)))"

subsection \<open>Capability accessors\<close>

text \<open>
  Each accessor returns an interface value and a flag. The interface value is either
  nil or the provider itself.
\<close>

definition Clusters :: "DigitalOcean \<Rightarrow> DigitalOcean option \<times> bool" where
  "Clusters do = (None, False)"

definition Instances :: "DigitalOcean \<Rightarrow> DigitalOcean option \<times> bool" where
  "Instances do = (Some do, True)"

definition LoadBalancer :: "DigitalOcean \<Rightarrow> DigitalOcean option \<times> bool" where
  "LoadBalancer do = (None, False)"

definition Zones :: "DigitalOcean \<Rightarrow> DigitalOcean option \<times> bool" where
  "Zones do = (Some do, False)"

definition Routes :: "DigitalOcean \<Rightarrow> DigitalOcean option \<times> bool" where
  "Routes do = (None, False)"

subsection \<open>Instance directory\<close>

fun findDroplet_loop :: "(string \<Rightarrow> string) \<Rightarrow> string \<Rightarrow> Droplet list \<Rightarrow> error + Droplet" where
  "findDroplet_loop ToLower name [] = Inl ErrNotFound"
| "findDroplet_loop ToLower name (d # droplets) =
     (if ToLower name = ToLower (Droplet.Name d) then Inr d
      else if (case PrivateIPv4 d of Inl err \<Rightarrow> False | Inr ipv4 \<Rightarrow> name = ipv4) then Inr d
      else if (case PublicIPv4 d of Inl err \<Rightarrow> False | Inr ipv4 \<Rightarrow> name = ipv4) then Inr d
      else findDroplet_loop ToLower name droplets)"

definition findDroplet :: "(string \<Rightarrow> string) \<Rightarrow> DigitalOcean \<Rightarrow> string \<Rightarrow> error + Droplet" where
  "findDroplet ToLower do name =
     (case Droplets_List (provider do) \<lparr>Page = 1, PerPage = 200\<rparr> of
        Inl err \<Rightarrow> Inl err
      | Inr droplets \<Rightarrow> findDroplet_loop ToLower name droplets)"

fun findDropletByFilter_loop :: "string \<Rightarrow> Droplet list \<Rightarrow> string list \<Rightarrow> string list" where
  "findDropletByFilter_loop flt [] acc = acc"
| "findDropletByFilter_loop flt (d # droplets) acc =
     (if Contains (Droplet.Name d) flt
      then findDropletByFilter_loop flt droplets (acc @ [Droplet.Name d])
      else findDropletByFilter_loop flt droplets acc)"

definition findDropletByFilter :: "DigitalOcean \<Rightarrow> string \<Rightarrow> error + string list" where
  "findDropletByFilter do flt =
     (case Droplets_List (provider do) \<lparr>Page = 1, PerPage = 200\<rparr> of
        Inl err \<Rightarrow> Inl err
      | Inr droplets \<Rightarrow> Inr (findDropletByFilter_loop flt droplets []))"

subsection \<open>Capability surface\<close>

datatype NodeAddressType = NodeHostName | NodeExternalIP | NodeInternalIP | NodeLegacyHostIP

record NodeAddress =
  Type :: NodeAddressType
  Address :: string

definition NodeAddresses :: "(string \<Rightarrow> string) \<Rightarrow> DigitalOcean \<Rightarrow> string \<Rightarrow> error + NodeAddress list" where
  "NodeAddresses ToLower do name =
     (case findDroplet ToLower do name of
        Inl err \<Rightarrow> Inl err
      | Inr droplet \<Rightarrow>
          (case PrivateIPv4 droplet of
             Inl err \<Rightarrow> Inl err
           | Inr internalIP \<Rightarrow>
               (case PublicIPv4 droplet of
                  Inl err \<Rightarrow> Inl err
                | Inr externalIP \<Rightarrow>
                    Inr ((([] @ [\<lparr>Type = NodeInternalIP, Address = internalIP\<rparr>])
                            @ [\<lparr>Type = NodeLegacyHostIP, Address = internalIP\<rparr>])
                            @ [\<lparr>Type = NodeExternalIP, Address = externalIP\<rparr>]))))"

definition ExternalID :: "(string \<Rightarrow> string) \<Rightarrow> DigitalOcean \<Rightarrow> string \<Rightarrow> error + string" where
  "ExternalID ToLower do nodeName =
     (case findDroplet ToLower do nodeName of
        Inl err \<Rightarrow> Inl InstanceNotFound
      | Inr droplet \<Rightarrow> Inr (Itoa (Droplet.ID droplet)))"

definition InstanceID :: "(string \<Rightarrow> string) \<Rightarrow> DigitalOcean \<Rightarrow> string \<Rightarrow> error + string" where
  "InstanceID ToLower do nodeName =
     (case findDroplet ToLower do nodeName of
        Inl err \<Rightarrow> Inl InstanceNotFound
      | Inr droplet \<Rightarrow> Inr (Itoa (Droplet.ID droplet)))"

definition LocalInstanceID :: "DigitalOcean \<Rightarrow> (error + string) outcome" where
  "LocalInstanceID do =
     (case selfDOInstance do of
        None \<Rightarrow> Panicked ''invalid memory address or nil pointer dereference''
      | Some self \<Rightarrow> Returned (Inr (Itoa (dropletID self))))"

definition InstanceType :: "(string \<Rightarrow> string) \<Rightarrow> DigitalOcean \<Rightarrow> string \<Rightarrow> (error + string) outcome" where
  "InstanceType ToLower do nodeName =
     (case findDroplet ToLower do nodeName of
        Inl err \<Rightarrow> Returned (Inl InstanceNotFound)
      | Inr droplet \<Rightarrow>
          (case Size droplet of
             None \<Rightarrow> Panicked ''invalid memory address or nil pointer dereference''
           | Some sz \<Rightarrow> Returned (Inr (Slug sz))))"

definition CurrentNodeName :: "(string \<Rightarrow> string) \<Rightarrow> DigitalOcean \<Rightarrow> string \<Rightarrow> error + string" where
  "CurrentNodeName ToLower do hostname =
     (case findDroplet ToLower do hostname of
        Inl err \<Rightarrow> Inl InstanceNotFound
      | Inr droplet \<Rightarrow> Inr (ToLower (Droplet.Name droplet)))"

section \<open>The volume adapter\<close>

text \<open>
  The methods of the volume adapter carry a log of the vendor endpoints they invoke,
  oldest first, so that a statement can say which endpoints a call reached.
\<close>

datatype call =
    Call_GetVolume string
  | Call_DeleteVolume string
  | Call_Attach string int

definition volumeIsUsed ::
  "DigitalOcean \<Rightarrow> string \<Rightarrow> call list \<Rightarrow> (error + bool) outcome \<times> call list" where
  "volumeIsUsed do volumeID tr =
     (let tr' = tr @ [Call_GetVolume volumeID] in
      case Storage_GetVolume (provider do) volumeID of
        (volume, err) \<Rightarrow>
          (case err of
             Some e \<Rightarrow> (Returned (Inl e), tr')
           | None \<Rightarrow>
               (case volume of
                  None \<Rightarrow> (Panicked ''invalid memory address or nil pointer dereference'', tr')
                | Some v \<Rightarrow>
                    (if length (DropletIDs v) > 0 then (Returned (Inr True), tr')
                     else (Returned (Inr False), tr')))))"

definition DeleteVolume ::
  "DigitalOcean \<Rightarrow> string \<Rightarrow> call list \<Rightarrow> error option outcome \<times> call list" where
  "DeleteVolume do volumeID tr =
     (case volumeIsUsed do volumeID tr of
        (Panicked msg, tr') \<Rightarrow> (Panicked msg, tr')
      | (Returned (Inl err), tr') \<Rightarrow> (Returned (Some err), tr')
      | (Returned (Inr used), tr') \<Rightarrow>
          (if used then
             (Returned (Some (DeletedVolumeInUseError
                (''Cannot delete the volume '' @ volumeID @
                 '', it's still attached to a node''))), tr')
           else
             (Returned (Storage_DeleteVolume (provider do) volumeID),
              tr' @ [Call_DeleteVolume volumeID])))"

definition AttachVolume ::
  "DigitalOcean \<Rightarrow> int \<Rightarrow> string \<Rightarrow> call list \<Rightarrow> (error + string) \<times> call list" where
  "AttachVolume do instanceID volumeID tr =
     (let err = StorageActions_Attach (provider do) volumeID instanceID;
          tr' = tr @ [Call_Attach volumeID instanceID]
      in case err of
           Some e \<Rightarrow> (Inl e, tr')
         | None \<Rightarrow>
             (case err of
                Some e \<Rightarrow> (Inl e, tr')
              | None \<Rightarrow> (Inr volumeID, tr')))"

definition getVolume ::
  "DigitalOcean \<Rightarrow> string \<Rightarrow> call list \<Rightarrow> (Volume option \<times> error option) \<times> call list" where
  "getVolume do volumeID tr =
     (Storage_GetVolume (provider do) volumeID, tr @ [Call_GetVolume volumeID])"

subsection \<open>Device paths\<close>

text \<open>
  \<open>path.Join\<close> of the standard library: the non-empty elements joined by a slash, then
  \<open>path.Clean\<close> (empty and \<open>.\<close> elements dropped, \<open>..\<close> resolved against the element
  before it, a lone root kept, the empty result written \<open>.\<close>).
\<close>

fun split_slash :: "string \<Rightarrow> string list" where
  "split_slash [] = [[]]"
| "split_slash (c # cs) =
     (if c = CHR ''/'' then [] # split_slash cs
      else (case split_slash cs of [] \<Rightarrow> [[c]] | x # xs \<Rightarrow> (c # x) # xs))"

fun join_slash :: "string list \<Rightarrow> string" where
  "join_slash [] = []"
| "join_slash [x] = x"
| "join_slash (x # y # ys) = x @ CHR ''/'' # join_slash (y # ys)"

definition Clean_step :: "bool \<Rightarrow> string list \<Rightarrow> string \<Rightarrow> string list" where
  "Clean_step rooted st el =
     (if el = [] \<or> el = ''.'' then st
      else if el = ''..'' then
        (case st of
           [] \<Rightarrow> (if rooted then [] else [''..''])
         | prev # rest \<Rightarrow> (if prev = ''..'' then ''..'' # st else rest))
      else el # st)"

definition Clean :: "string \<Rightarrow> string" where
  "Clean p =
     (case p of
        [] \<Rightarrow> ''.''
      | c # cs \<Rightarrow>
          (let rooted = (c = CHR ''/'');
               st = foldl (Clean_step rooted) [] (split_slash p);
               out = (if rooted then ''/'' else []) @ join_slash (rev st)
           in if out = [] then ''.'' else out))"

definition path_Join :: "string list \<Rightarrow> string" where
  "path_Join elem =
     (let rest = dropWhile (\<lambda>e. e = []) elem in
      if rest = [] then [] else Clean (join_slash rest))"

text \<open>
  \<open>GetDevicePath\<close> takes the names of the entries that \<open>ioutil.ReadDir\<close> yielded for
  \<open>/dev/disk/by-id/\<close>, in the order it yielded them (its error is dropped by the
  code). Slicing a name shorter than the marker would panic.
\<close>

fun GetDevicePath :: "string list \<Rightarrow> string \<Rightarrow> string outcome" where
  "GetDevicePath [] volumeId = Returned []"
| "GetDevicePath (f # files) volumeId =
     (if Contains f ''scsi-0DO_Volume_'' then
        (if length f < length ''scsi-0DO_Volume_'' then Panicked ''slice bounds out of range''
         else
           (let devid_prefix = drop (length ''scsi-0DO_Volume_'') f in
            if Contains volumeId devid_prefix
            then Returned (path_Join [''/dev/disk/by-id/'', f])
            else GetDevicePath files volumeId))
      else GetDevicePath files volumeId)"

subsection \<open>Attachment queries\<close>

fun DisksAreAttached_init :: "string list \<Rightarrow> (string \<rightharpoonup> bool) \<Rightarrow> (string \<rightharpoonup> bool)" where
  "DisksAreAttached_init [] attached = attached"
| "DisksAreAttached_init (volumeID # volumeIDs) attached =
     DisksAreAttached_init volumeIDs (attached(volumeID \<mapsto> False))"

fun DisksAreAttached_mark ::
  "int list \<Rightarrow> int \<Rightarrow> string \<Rightarrow> (string \<rightharpoonup> bool) \<Rightarrow> (string \<rightharpoonup> bool)" where
  "DisksAreAttached_mark [] instanceID volumeID attached = attached"
| "DisksAreAttached_mark (i # ids) instanceID volumeID attached =
     DisksAreAttached_mark ids instanceID volumeID
       (if i = instanceID then attached(volumeID \<mapsto> True) else attached)"

fun DisksAreAttached_loop ::
  "DigitalOcean \<Rightarrow> string list \<Rightarrow> int \<Rightarrow> (string \<rightharpoonup> bool) \<Rightarrow> call list
     \<Rightarrow> (string \<rightharpoonup> bool) outcome \<times> call list" where
  "DisksAreAttached_loop do [] instanceID attached tr = (Returned attached, tr)"
| "DisksAreAttached_loop do (volumeID # volumeIDs) instanceID attached tr =
     (case getVolume do volumeID tr of
        ((volume, err), tr') \<Rightarrow>
          (case err of
             Some e \<Rightarrow> DisksAreAttached_loop do volumeIDs instanceID attached tr'
           | None \<Rightarrow>
               (case volume of
                  None \<Rightarrow> (Panicked ''invalid memory address or nil pointer dereference'', tr')
                | Some v \<Rightarrow>
                    DisksAreAttached_loop do volumeIDs instanceID
                      (DisksAreAttached_mark (DropletIDs v) instanceID volumeID attached) tr')))"

definition DisksAreAttached ::
  "DigitalOcean \<Rightarrow> string list \<Rightarrow> int \<Rightarrow> call list
     \<Rightarrow> (error + (string \<rightharpoonup> bool)) outcome \<times> call list" where
  "DisksAreAttached do volumeIDs instanceID tr =
     (case DisksAreAttached_loop do volumeIDs instanceID
             (DisksAreAttached_init volumeIDs Map.empty) tr of
        (Panicked msg, tr') \<Rightarrow> (Panicked msg, tr')
      | (Returned attached, tr') \<Rightarrow> (Returned (Inr attached), tr'))"

section \<open>Reference readings of the specification\<close>

text \<open>
  Identity resolution as the specification words it, with a priority that is global
  over the listing: a case-insensitive name match anywhere in the listing first, else
  an exact private IPv4 match anywhere, else an exact public IPv4 match anywhere,
  else NotFound. It is compared with \<open>findDroplet\<close> below.
\<close>

definition findByIdentity_global :: "(string \<Rightarrow> string) \<Rightarrow> Droplet list \<Rightarrow> string \<Rightarrow> error + Droplet" where
  "findByIdentity_global ToLower droplets name =
     (case find (\<lambda>d. ToLower name = ToLower (Droplet.Name d)) droplets of
        Some d \<Rightarrow> Inr d
      | None \<Rightarrow>
          (case find (\<lambda>d. PrivateIPv4 d = Inr name) droplets of
             Some d \<Rightarrow> Inr d
           | None \<Rightarrow>
               (case find (\<lambda>d. PublicIPv4 d = Inr name) droplets of
                  Some d \<Rightarrow> Inr d
                | None \<Rightarrow> Inl ErrNotFound)))"

text \<open>
  The three keys under which one droplet answers to a queried name: its name after
  \<open>strings.ToLower\<close> on both sides, its private IPv4, its public IPv4.
\<close>

definition matches_identity :: "(string \<Rightarrow> string) \<Rightarrow> string \<Rightarrow> Droplet \<Rightarrow> bool" where
  "matches_identity ToLower name d =
     (ToLower name = ToLower (Droplet.Name d) \<or> PrivateIPv4 d = Inr name
        \<or> PublicIPv4 d = Inr name)"

text \<open>
  A device entry as the specification describes it: its name starts with the marker
  \<open>scsi-0DO_Volume_\<close> and the rest of the name occurs in the queried volume ID.
\<close>

definition entry_matches :: "string \<Rightarrow> string \<Rightarrow> bool" where
  "entry_matches volumeId f =
     (prefix ''scsi-0DO_Volume_'' f
        \<and> Contains volumeId (drop (length ''scsi-0DO_Volume_'') f))"

section \<open>Stub collaborators for concrete runs\<close>

text \<open>
  The lower-case fold of \<open>strings.ToLower\<close> on ASCII bytes: \<open>A\<close> to \<open>Z\<close> move to
  \<open>a\<close> to \<open>z\<close>, every other byte stays. It stands for \<open>strings.ToLower\<close> in the
  concrete runs below, whose names are all ASCII.
\<close>

definition toLower_byte :: "char \<Rightarrow> char" where
  "toLower_byte c =
     (if (65::nat) \<le> of_char c \<and> of_char c \<le> (90::nat)
      then char_of (of_char c + (32::nat)) else c)"

definition ToLower_ascii :: "string \<Rightarrow> string" where
  "ToLower_ascii s = map toLower_byte s"

definition stub_volumes ::
  "(string \<times> Volume option \<times> error option) list \<Rightarrow> string \<Rightarrow> Volume option \<times> error option" where
  "stub_volumes vs volumeID =
     (case map_of vs volumeID of
        None \<Rightarrow> (None, Some (External ''volume lookup failed''))
      | Some reply \<Rightarrow> reply)"

definition stub_client ::
  "error + Droplet list \<Rightarrow> (string \<times> Volume option \<times> error option) list
     \<Rightarrow> godo_Client" where
  "stub_client listing vs =
     \<lparr>Account_Get = None,
      Droplets_List = (\<lambda>opts. listing),
      Storage_GetVolume = stub_volumes vs,
      Storage_DeleteVolume = (\<lambda>volumeID. None),
      StorageActions_Attach = (\<lambda>volumeID instanceID. None)\<rparr>"

definition stub_provider ::
  "error + Droplet list \<Rightarrow> (string \<times> Volume option \<times> error option) list
     \<Rightarrow> DigitalOcean" where
  "stub_provider listing vs =
     \<lparr>provider = stub_client listing vs, DigitalOcean.region = ''nyc3'',
      selfDOInstance = None\<rparr>"

definition stub_world :: "string \<Rightarrow> string \<Rightarrow> World" where
  "stub_world regionBytes idBytes =
     \<lparr>godo_NewClient = (\<lambda>token. stub_client (Inr []) []),
      http_Get = (\<lambda>url.
        if url = ''http://169.254.169.254/metadata/v1/region'' then Inr regionBytes
        else if url = ''http://169.254.169.254/metadata/v1/id'' then Inr idBytes
        else Inl (External ''no such endpoint''))\<rparr>"

definition stub_droplet :: "int \<Rightarrow> string \<Rightarrow> string \<Rightarrow> string \<Rightarrow> Droplet" where
  "stub_droplet i n priv pub =
     \<lparr>Droplet.ID = i, Name = n, Size = Some \<lparr>Slug = ''512mb''\<rparr>,
      PrivateIPv4 = Inr priv, PublicIPv4 = Inr pub\<rparr>"

text \<open>A droplet whose record carries no networks: both address accessors report an error.\<close>

definition stub_droplet_no_networks :: "int \<Rightarrow> string \<Rightarrow> Droplet" where
  "stub_droplet_no_networks i n =
     \<lparr>Droplet.ID = i, Name = n, Size = Some \<lparr>Slug = ''512mb''\<rparr>,
      PrivateIPv4 = Inl (External ''no networks have been defined''),
      PublicIPv4 = Inl (External ''no networks have been defined'')\<rparr>"

section \<open>Construction and the self-instance\<close>

lemma newDigitalOcean_self_unset:
  "newDigitalOcean w cfg = Returned (Inr do) \<Longrightarrow> selfDOInstance do = None"
  by (auto simp: newDigitalOcean_def Let_def split: option.splits outcome.splits sum.splits)

lemma Atoi_12345: "Atoi ''12345'' = Inr 12345"
  by code_simp

text \<open>
  C1. The specification has \<open>LocalInstanceID\<close> return, without error, the decimal text
  of the droplet ID that construction resolved from the metadata service. In the code
  \<open>newDigitalOcean\<close> binds the resolved instance to a local variable and never stores
  it in the provider, so every provider it returns has \<open>selfDOInstance\<close> unset and
  \<open>LocalInstanceID\<close> dereferences nil: it panics instead of returning.
\<close>

theorem LocalInstanceID_after_newDigitalOcean:
  assumes "newDigitalOcean w cfg = Returned (Inr do)"
  shows "selfDOInstance do = None
    \<and> LocalInstanceID do = Panicked ''invalid memory address or nil pointer dereference''"
  using newDigitalOcean_self_unset [OF assms] by (simp add: LocalInstanceID_def)

text \<open>
  A run of C1: the metadata service answers region \<open>nyc3\<close> and ID \<open>12345\<close>, the ID is
  resolved, construction succeeds, and \<open>LocalInstanceID\<close> on the result panics.
\<close>

theorem LocalInstanceID_after_newDigitalOcean_witness:
  "buildSelfDOInstance (stub_provider (Inr []) []) (stub_world ''nyc3'' ''12345'')
     = Returned (Inr \<lparr>dropletID = 12345, doInstance.region = ''nyc3''\<rparr>)
   \<and> newDigitalOcean (stub_world ''nyc3'' ''12345'') \<lparr>ApiKey = ''token'', Region = ''nyc3''\<rparr>
     = Returned (Inr (stub_provider (Inr []) []))
   \<and> selfDOInstance (stub_provider (Inr []) []) = None
   \<and> LocalInstanceID (stub_provider (Inr []) [])
     = Panicked ''invalid memory address or nil pointer dereference''"
proof -
  have b: "buildSelfDOInstance (stub_provider (Inr []) []) (stub_world ''nyc3'' ''12345'')
     = Returned (Inr \<lparr>dropletID = 12345, doInstance.region = ''nyc3''\<rparr>)"
    by (simp add: buildSelfDOInstance_def stub_provider_def stub_world_def Atoi_12345)
  have n: "newDigitalOcean (stub_world ''nyc3'' ''12345'') \<lparr>ApiKey = ''token'', Region = ''nyc3''\<rparr>
     = Returned (Inr (stub_provider (Inr []) []))"
    by (simp add: buildSelfDOInstance_def newDigitalOcean_def
          stub_provider_def stub_world_def stub_client_def Atoi_12345)
  show ?thesis using b n LocalInstanceID_after_newDigitalOcean [OF n] by simp
qed

section \<open>Identity resolution\<close>

lemma findDroplet_loop_step:
  "findDroplet_loop ToLower name (d # droplets) =
     (if matches_identity ToLower name d then Inr d else findDroplet_loop ToLower name droplets)"
  by (auto simp: matches_identity_def split: sum.splits)

lemma findDroplet_loop_first:
  "matches_identity ToLower name d \<Longrightarrow> \<forall>x \<in> set pre. \<not> matches_identity ToLower name x
     \<Longrightarrow> findDroplet_loop ToLower name (pre @ d # post) = Inr d"
  by (induction pre) (simp_all add: findDroplet_loop_step del: findDroplet_loop.simps(2))

lemma findDroplet_loop_none:
  "\<forall>x \<in> set droplets. \<not> matches_identity ToLower name x
     \<Longrightarrow> findDroplet_loop ToLower name droplets = Inl ErrNotFound"
  by (induction droplets) (simp_all add: findDroplet_loop_step del: findDroplet_loop.simps(2))

text \<open>
  C2, as worded in the specification, gives the three keys a priority that is global
  over the listing. The code tests the three keys on one droplet before it moves to
  the next, so an earlier droplet that matches by an address wins over a later one
  that matches by name. Here droplet 1 has private address \<open>10.0.0.5\<close> and droplet 2
  is named \<open>10.0.0.5\<close>: the code answers droplet 1, the global priority droplet 2.
\<close>

theorem findDroplet_global_priority_counterexample:
  "findDroplet ToLower_ascii
     (stub_provider (Inr [stub_droplet 1 ''node-a'' ''10.0.0.5'' ''203.0.113.1'',
                          stub_droplet 2 ''10.0.0.5'' ''10.0.0.6'' ''203.0.113.2'']) [])
     ''10.0.0.5''
   = Inr (stub_droplet 1 ''node-a'' ''10.0.0.5'' ''203.0.113.1'')
   \<and> findByIdentity_global ToLower_ascii
        [stub_droplet 1 ''node-a'' ''10.0.0.5'' ''203.0.113.1'',
         stub_droplet 2 ''10.0.0.5'' ''10.0.0.6'' ''203.0.113.2''] ''10.0.0.5''
      = Inr (stub_droplet 2 ''10.0.0.5'' ''10.0.0.6'' ''203.0.113.2'')
   \<and> stub_droplet 1 ''node-a'' ''10.0.0.5'' ''203.0.113.1''
      \<noteq> stub_droplet 2 ''10.0.0.5'' ''10.0.0.6'' ''203.0.113.2''"
  by (simp add: findDroplet_def findByIdentity_global_def stub_provider_def stub_client_def
        stub_droplet_def ToLower_ascii_def toLower_byte_def)

text \<open>
  C2, amended. For every successful droplet listing and every queried name,
  \<open>findDroplet\<close> returns the first droplet in listing order that matches the query
  by any of the three keys (name without regard to case, that is, equal after
  \<open>strings.ToLower\<close>; exact private IPv4; exact public IPv4); if no droplet matches
  by any key the result is the NotFound error. This holds whatever function
  \<open>strings.ToLower\<close> is.
\<close>

theorem findDroplet_first_match:
  assumes "Droplets_List (provider do) \<lparr>Page = 1, PerPage = 200\<rparr> = Inr droplets"
  shows "(\<forall>pre d post. droplets = pre @ d # post \<and> matches_identity ToLower name d
            \<and> (\<forall>x \<in> set pre. \<not> matches_identity ToLower name x)
          \<longrightarrow> findDroplet ToLower do name = Inr d)
    \<and> ((\<forall>x \<in> set droplets. \<not> matches_identity ToLower name x) \<longrightarrow> findDroplet ToLower do name = Inl ErrNotFound)"
proof -
  have eq: "findDroplet ToLower do name = findDroplet_loop ToLower name droplets"
    using assms by (simp add: findDroplet_def)
  show ?thesis using eq findDroplet_loop_first findDroplet_loop_none by auto
qed

theorem findDroplet_first_match_witness:
  "Droplets_List (provider (stub_provider
       (Inr [stub_droplet 1 ''db-1'' ''10.0.0.4'' ''203.0.113.4'',
             stub_droplet 2 ''Web-1'' ''10.0.0.5'' ''203.0.113.5'']) []))
     \<lparr>Page = 1, PerPage = 200\<rparr>
     = Inr [stub_droplet 1 ''db-1'' ''10.0.0.4'' ''203.0.113.4'',
            stub_droplet 2 ''Web-1'' ''10.0.0.5'' ''203.0.113.5'']
   \<and> findDroplet ToLower_ascii (stub_provider
       (Inr [stub_droplet 1 ''db-1'' ''10.0.0.4'' ''203.0.113.4'',
             stub_droplet 2 ''Web-1'' ''10.0.0.5'' ''203.0.113.5'']) []) ''web-1''
     = Inr (stub_droplet 2 ''Web-1'' ''10.0.0.5'' ''203.0.113.5'')
   \<and> findDroplet ToLower_ascii (stub_provider
       (Inr [stub_droplet 1 ''db-1'' ''10.0.0.4'' ''203.0.113.4'',
             stub_droplet 2 ''Web-1'' ''10.0.0.5'' ''203.0.113.5'']) []) ''cache-9''
     = Inl ErrNotFound"
proof -
  let ?d1 = "stub_droplet 1 ''db-1'' ''10.0.0.4'' ''203.0.113.4''"
  let ?d2 = "stub_droplet 2 ''Web-1'' ''10.0.0.5'' ''203.0.113.5''"
  let ?do = "stub_provider (Inr [?d1, ?d2]) []"
  have l: "Droplets_List (provider ?do) \<lparr>Page = 1, PerPage = 200\<rparr> = Inr [?d1, ?d2]"
    by (simp add: stub_provider_def stub_client_def)
  have m2: "matches_identity ToLower_ascii ''web-1'' ?d2"
    by code_simp
  have m1: "\<not> matches_identity ToLower_ascii ''web-1'' ?d1"
    by code_simp
  have n1: "\<not> matches_identity ToLower_ascii ''cache-9'' ?d1"
    by code_simp
  have n2: "\<not> matches_identity ToLower_ascii ''cache-9'' ?d2"
    by code_simp
  have s: "[?d1, ?d2] = [?d1] @ ?d2 # []" by simp
  have p: "\<forall>x \<in> set [?d1]. \<not> matches_identity ToLower_ascii ''web-1'' x" using m1 by simp
  have q: "\<forall>x \<in> set [?d1, ?d2]. \<not> matches_identity ToLower_ascii ''cache-9'' x" using n1 n2 by simp
  have f: "findDroplet ToLower_ascii ?do ''web-1'' = Inr ?d2"
    using findDroplet_first_match [OF l, of ToLower_ascii "''web-1''"] s m2 p by blast
  have g: "findDroplet ToLower_ascii ?do ''cache-9'' = Inl ErrNotFound"
    using findDroplet_first_match [OF l, of ToLower_ascii "''cache-9''"] q by blast
  show ?thesis using l f g by simp
qed

lemma findDropletByFilter_loop_acc:
  "findDropletByFilter_loop flt droplets acc =
     acc @ filter (\<lambda>n. Contains n flt) (map Droplet.Name droplets)"
  by (induction droplets arbitrary: acc) simp_all

text \<open>
  C9. For every successful droplet listing and every filter, \<open>findDropletByFilter\<close>
  returns exactly the names that contain the filter as a literal, case-sensitive
  substring, in listing order; a listing with the names \<open>api-1\<close>, \<open>api-2\<close>, \<open>db-1\<close>
  filtered by \<open>api\<close> yields \<open>api-1\<close>, \<open>api-2\<close>.
\<close>

theorem findDropletByFilter_names:
  assumes "Droplets_List (provider do) \<lparr>Page = 1, PerPage = 200\<rparr> = Inr droplets"
  shows "findDropletByFilter do flt = Inr (filter (\<lambda>n. Contains n flt) (map Droplet.Name droplets))
    \<and> (map Droplet.Name droplets = [''api-1'', ''api-2'', ''db-1'']
         \<longrightarrow> findDropletByFilter do ''api'' = Inr [''api-1'', ''api-2''])"
proof -
  have gen: "findDropletByFilter do f = Inr (filter (\<lambda>n. Contains n f) (map Droplet.Name droplets))" for f
    using assms by (simp add: findDropletByFilter_def findDropletByFilter_loop_acc)
  have ex: "filter (\<lambda>n. Contains n ''api'') [''api-1'', ''api-2'', ''db-1''] = [''api-1'', ''api-2'']"
    by (simp add: Contains_def sublist_code)
  show ?thesis using gen ex by simp
qed

theorem findDropletByFilter_names_witness:
  "Droplets_List (provider
     (stub_provider (Inr [stub_droplet 1 ''api-1'' ''10.0.0.1'' ''1.1.1.1'',
                          stub_droplet 2 ''api-2'' ''10.0.0.2'' ''1.1.1.2'',
                          stub_droplet 3 ''db-1'' ''10.0.0.3'' ''1.1.1.3'']) []))
     \<lparr>Page = 1, PerPage = 200\<rparr>
   = Inr [stub_droplet 1 ''api-1'' ''10.0.0.1'' ''1.1.1.1'',
          stub_droplet 2 ''api-2'' ''10.0.0.2'' ''1.1.1.2'',
          stub_droplet 3 ''db-1'' ''10.0.0.3'' ''1.1.1.3'']
   \<and> findDropletByFilter
     (stub_provider (Inr [stub_droplet 1 ''api-1'' ''10.0.0.1'' ''1.1.1.1'',
                          stub_droplet 2 ''api-2'' ''10.0.0.2'' ''1.1.1.2'',
                          stub_droplet 3 ''db-1'' ''10.0.0.3'' ''1.1.1.3'']) []) ''api''
   = Inr [''api-1'', ''api-2'']"
  using findDropletByFilter_names
    [of "stub_provider (Inr [stub_droplet 1 ''api-1'' ''10.0.0.1'' ''1.1.1.1'',
                          stub_droplet 2 ''api-2'' ''10.0.0.2'' ''1.1.1.2'',
                          stub_droplet 3 ''db-1'' ''10.0.0.3'' ''1.1.1.3'']) []"
        "[stub_droplet 1 ''api-1'' ''10.0.0.1'' ''1.1.1.1'',
                          stub_droplet 2 ''api-2'' ''10.0.0.2'' ''1.1.1.2'',
                          stub_droplet 3 ''db-1'' ''10.0.0.3'' ''1.1.1.3'']" "''api''"]
  by (simp add: stub_provider_def stub_client_def stub_droplet_def Contains_def sublist_code)

section \<open>Capability surface\<close>

text \<open>
  C7. The specification has the accessors for instances and zones declare their
  groups exposed (the provider with a true flag) and the accessors for load balancers,
  routes and clusters declare theirs absent. In the code \<open>Zones\<close> returns the provider
  with a false flag, unlike \<open>Instances\<close>; the other three return nil and false.
\<close>

theorem capability_accessors:
  "Instances do = (Some do, True) \<and> Zones do = (Some do, False)
   \<and> Clusters do = (None, False) \<and> LoadBalancer do = (None, False) \<and> Routes do = (None, False)"
  by (simp add: Instances_def Zones_def Clusters_def LoadBalancer_def Routes_def)

text \<open>
  C6, as worded in the specification, has \<open>NodeAddresses\<close> fail when either IP is
  unset on the record. The code tests only the error of each accessor, and an
  accessor answers an unset address as the empty string without error. Here the
  droplet has no private address: \<open>NodeAddresses\<close> succeeds, with an empty internal
  and legacy address.
\<close>

theorem NodeAddresses_unset_address_counterexample:
  "findDroplet ToLower_ascii
       (stub_provider (Inr [stub_droplet 4 ''db-2'' [] ''203.0.113.7'']) []) ''db-2''
     = Inr (stub_droplet 4 ''db-2'' [] ''203.0.113.7'')
   \<and> PrivateIPv4 (stub_droplet 4 ''db-2'' [] ''203.0.113.7'') = Inr []
   \<and> NodeAddresses ToLower_ascii
       (stub_provider (Inr [stub_droplet 4 ''db-2'' [] ''203.0.113.7'']) []) ''db-2''
     = Inr [\<lparr>Type = NodeInternalIP, Address = []\<rparr>,
            \<lparr>Type = NodeLegacyHostIP, Address = []\<rparr>,
            \<lparr>Type = NodeExternalIP, Address = ''203.0.113.7''\<rparr>]"
  by (simp add: NodeAddresses_def findDroplet_def stub_provider_def stub_client_def
        stub_droplet_def ToLower_ascii_def toLower_byte_def)

text \<open>
  C6, amended. For every node name, when the droplet is found and both address
  accessors answer without error, \<open>NodeAddresses\<close> returns exactly three addresses in
  the order internal IP, legacy host IP equal to the internal IP, external IP, each
  being what its accessor answered (the empty string for an address that is unset).
  When the lookup fails \<open>NodeAddresses\<close> fails with the lookup error, and when either
  accessor reports an error it fails too.
\<close>

theorem NodeAddresses_three_or_fail:
  "(\<forall>d internalIP externalIP.
      findDroplet ToLower do name = Inr d \<and> PrivateIPv4 d = Inr internalIP \<and> PublicIPv4 d = Inr externalIP
      \<longrightarrow> NodeAddresses ToLower do name =
            Inr [\<lparr>Type = NodeInternalIP, Address = internalIP\<rparr>,
                 \<lparr>Type = NodeLegacyHostIP, Address = internalIP\<rparr>,
                 \<lparr>Type = NodeExternalIP, Address = externalIP\<rparr>])
   \<and> (\<forall>e. findDroplet ToLower do name = Inl e \<longrightarrow> NodeAddresses ToLower do name = Inl e)
   \<and> (\<forall>d. findDroplet ToLower do name = Inr d \<and> (isl (PrivateIPv4 d) \<or> isl (PublicIPv4 d))
        \<longrightarrow> isl (NodeAddresses ToLower do name))"
  by (auto simp: NodeAddresses_def split: sum.splits)

theorem NodeAddresses_three_or_fail_witness:
  "findDroplet ToLower_ascii
       (stub_provider (Inr [stub_droplet 2 ''Web-1'' ''10.0.0.5'' ''203.0.113.5'']) []) ''web-1''
     = Inr (stub_droplet 2 ''Web-1'' ''10.0.0.5'' ''203.0.113.5'')
   \<and> NodeAddresses ToLower_ascii
       (stub_provider (Inr [stub_droplet 2 ''Web-1'' ''10.0.0.5'' ''203.0.113.5'']) []) ''web-1''
     = Inr [\<lparr>Type = NodeInternalIP, Address = ''10.0.0.5''\<rparr>,
            \<lparr>Type = NodeLegacyHostIP, Address = ''10.0.0.5''\<rparr>,
            \<lparr>Type = NodeExternalIP, Address = ''203.0.113.5''\<rparr>]
   \<and> findDroplet ToLower_ascii (stub_provider (Inr []) []) ''web-1'' = Inl ErrNotFound
   \<and> NodeAddresses ToLower_ascii (stub_provider (Inr []) []) ''web-1'' = Inl ErrNotFound
   \<and> findDroplet ToLower_ascii
       (stub_provider (Inr [stub_droplet_no_networks 3 ''bare'']) []) ''bare''
     = Inr (stub_droplet_no_networks 3 ''bare'')
   \<and> isl (PrivateIPv4 (stub_droplet_no_networks 3 ''bare''))
   \<and> isl (NodeAddresses ToLower_ascii
       (stub_provider (Inr [stub_droplet_no_networks 3 ''bare'']) []) ''bare'')"
proof -
  let ?d2 = "stub_droplet 2 ''Web-1'' ''10.0.0.5'' ''203.0.113.5''"
  let ?d3 = "stub_droplet_no_networks 3 ''bare''"
  let ?do = "stub_provider (Inr [?d2]) []"
  let ?do3 = "stub_provider (Inr [?d3]) []"
  have f: "findDroplet ToLower_ascii ?do ''web-1'' = Inr ?d2"
    by code_simp
  have i: "PrivateIPv4 ?d2 = Inr ''10.0.0.5''" and e: "PublicIPv4 ?d2 = Inr ''203.0.113.5''"
    by (simp_all add: stub_droplet_def)
  have a: "NodeAddresses ToLower_ascii ?do ''web-1''
     = Inr [\<lparr>Type = NodeInternalIP, Address = ''10.0.0.5''\<rparr>,
            \<lparr>Type = NodeLegacyHostIP, Address = ''10.0.0.5''\<rparr>,
            \<lparr>Type = NodeExternalIP, Address = ''203.0.113.5''\<rparr>]"
    using NodeAddresses_three_or_fail [of ToLower_ascii ?do "''web-1''"] f i e by blast
  have n: "findDroplet ToLower_ascii (stub_provider (Inr []) []) ''web-1'' = Inl ErrNotFound"
    by (simp add: findDroplet_def stub_provider_def stub_client_def)
  have b: "NodeAddresses ToLower_ascii (stub_provider (Inr []) []) ''web-1'' = Inl ErrNotFound"
    using NodeAddresses_three_or_fail [of ToLower_ascii "stub_provider (Inr []) []" "''web-1''"] n
    by blast
  have f3: "findDroplet ToLower_ascii ?do3 ''bare'' = Inr ?d3"
    by code_simp
  have u: "isl (PrivateIPv4 ?d3)" by (simp add: stub_droplet_no_networks_def)
  have c: "isl (NodeAddresses ToLower_ascii ?do3 ''bare'')"
    using NodeAddresses_three_or_fail [of ToLower_ascii ?do3 "''bare''"] f3 u by blast
  show ?thesis using f a n b f3 u c by simp
qed

text \<open>
  C3, as worded in the specification, has \<open>InstanceType\<close> hand the lookup error back
  unchanged. The code returns \<open>InstanceNotFound\<close> there as well: with a listing that
  fails on the transport, \<open>InstanceType\<close> answers \<open>InstanceNotFound\<close>, not the
  transport error.
\<close>

theorem InstanceType_counterexample:
  "findDroplet ToLower_ascii (stub_provider (Inl (External ''connection refused'')) []) ''web-1''
     = Inl (External ''connection refused'')
   \<and> InstanceType ToLower_ascii (stub_provider (Inl (External ''connection refused'')) []) ''web-1''
     = Returned (Inl InstanceNotFound)
   \<and> InstanceNotFound \<noteq> External ''connection refused''"
  by (simp add: InstanceType_def findDroplet_def stub_provider_def stub_client_def)

text \<open>
  C3, amended. For every failing lookup, whatever its error, \<open>ExternalID\<close>,
  \<open>InstanceID\<close>, \<open>CurrentNodeName\<close> and \<open>InstanceType\<close> return
  \<open>InstanceNotFound\<close>, while \<open>NodeAddresses\<close> returns the lookup error unchanged.
\<close>

theorem lookup_failure_policy:
  assumes "findDroplet ToLower do name = Inl e"
  shows "ExternalID ToLower do name = Inl InstanceNotFound
    \<and> InstanceID ToLower do name = Inl InstanceNotFound
    \<and> CurrentNodeName ToLower do name = Inl InstanceNotFound
    \<and> InstanceType ToLower do name = Returned (Inl InstanceNotFound)
    \<and> NodeAddresses ToLower do name = Inl e"
  using assms
  by (simp add: ExternalID_def InstanceID_def CurrentNodeName_def InstanceType_def NodeAddresses_def)

theorem lookup_failure_policy_witness:
  "findDroplet ToLower_ascii (stub_provider (Inr []) []) ''web-1'' = Inl ErrNotFound
   \<and> ExternalID ToLower_ascii (stub_provider (Inr []) []) ''web-1'' = Inl InstanceNotFound
   \<and> InstanceID ToLower_ascii (stub_provider (Inr []) []) ''web-1'' = Inl InstanceNotFound
   \<and> CurrentNodeName ToLower_ascii (stub_provider (Inr []) []) ''web-1'' = Inl InstanceNotFound
   \<and> InstanceType ToLower_ascii (stub_provider (Inr []) []) ''web-1'' = Returned (Inl InstanceNotFound)
   \<and> NodeAddresses ToLower_ascii (stub_provider (Inr []) []) ''web-1'' = Inl ErrNotFound"
proof -
  have h: "findDroplet ToLower_ascii (stub_provider (Inr []) []) ''web-1'' = Inl ErrNotFound"
    by (simp add: findDroplet_def stub_provider_def stub_client_def)
  show ?thesis using h lookup_failure_policy [OF h] by simp
qed

section \<open>Volume adapter\<close>

text \<open>
  C4. When the volume lookup answers a volume with a non-empty attachment list,
  \<open>DeleteVolume\<close> fails with the volume-in-use error and its only vendor call is the
  lookup. The delete endpoint is invoked only after a lookup that succeeded and
  reported an empty attachment list.
\<close>

theorem DeleteVolume_refuses_attached:
  "(\<forall>vol. Storage_GetVolume (provider do) volumeID = (Some vol, None) \<and> DropletIDs vol \<noteq> []
      \<longrightarrow> fst (DeleteVolume do volumeID tr) =
            Returned (Some (DeletedVolumeInUseError
              (''Cannot delete the volume '' @ volumeID @ '', it's still attached to a node'')))
          \<and> snd (DeleteVolume do volumeID tr) = tr @ [Call_GetVolume volumeID])
   \<and> (\<forall>v. Call_DeleteVolume v \<in> set (snd (DeleteVolume do volumeID []))
      \<longrightarrow> (\<exists>vol. Storage_GetVolume (provider do) volumeID = (Some vol, None)
                \<and> DropletIDs vol = []))"
proof -
  obtain volume err where g: "Storage_GetVolume (provider do) volumeID = (volume, err)"
    by (cases "Storage_GetVolume (provider do) volumeID")
  show ?thesis
    by (cases err; cases volume)
       (auto simp: DeleteVolume_def volumeIsUsed_def Let_def g split: if_splits)
qed

theorem DeleteVolume_refuses_attached_witness:
  "Storage_GetVolume (provider (stub_provider (Inr [])
       [(''vol-1'', Some \<lparr>Volume.ID = ''vol-1'', Name = ''data'', DropletIDs = [7]\<rparr>, None)]))
       ''vol-1''
     = (Some \<lparr>Volume.ID = ''vol-1'', Name = ''data'', DropletIDs = [7]\<rparr>, None)
   \<and> DeleteVolume (stub_provider (Inr [])
       [(''vol-1'', Some \<lparr>Volume.ID = ''vol-1'', Name = ''data'', DropletIDs = [7]\<rparr>, None)])
       ''vol-1'' []
     = (Returned (Some (DeletedVolumeInUseError
               ''Cannot delete the volume vol-1, it's still attached to a node'')),
        [Call_GetVolume ''vol-1''])
   \<and> Call_DeleteVolume ''vol-2'' \<in> set (snd (DeleteVolume (stub_provider (Inr [])
       [(''vol-2'', Some \<lparr>Volume.ID = ''vol-2'', Name = ''logs'', DropletIDs = []\<rparr>, None)])
       ''vol-2'' []))
   \<and> Storage_GetVolume (provider (stub_provider (Inr [])
       [(''vol-2'', Some \<lparr>Volume.ID = ''vol-2'', Name = ''logs'', DropletIDs = []\<rparr>, None)]))
       ''vol-2''
     = (Some \<lparr>Volume.ID = ''vol-2'', Name = ''logs'', DropletIDs = []\<rparr>, None)"
proof -
  let ?do1 = "stub_provider (Inr [])
       [(''vol-1'', Some \<lparr>Volume.ID = ''vol-1'', Name = ''data'', DropletIDs = [7]\<rparr>, None)]"
  let ?do2 = "stub_provider (Inr [])
       [(''vol-2'', Some \<lparr>Volume.ID = ''vol-2'', Name = ''logs'', DropletIDs = []\<rparr>, None)]"
  have g1: "Storage_GetVolume (provider ?do1) ''vol-1''
     = (Some \<lparr>Volume.ID = ''vol-1'', Name = ''data'', DropletIDs = [7]\<rparr>, None)"
    by (simp add: stub_provider_def stub_client_def stub_volumes_def)
  have c2: "Call_DeleteVolume ''vol-2'' \<in> set (snd (DeleteVolume ?do2 ''vol-2'' []))"
    by (simp add: DeleteVolume_def volumeIsUsed_def stub_provider_def stub_client_def stub_volumes_def)
  from DeleteVolume_refuses_attached [of ?do1 "''vol-1''" "[]"] g1
  have r1: "fst (DeleteVolume ?do1 ''vol-1'' []) =
            Returned (Some (DeletedVolumeInUseError
              (''Cannot delete the volume '' @ ''vol-1'' @ '', it's still attached to a node'')))
          \<and> snd (DeleteVolume ?do1 ''vol-1'' []) = [] @ [Call_GetVolume ''vol-1'']"
    by simp
  from DeleteVolume_refuses_attached [of ?do2 "''vol-2''" "[]"] c2
  have r2: "\<exists>vol. Storage_GetVolume (provider ?do2) ''vol-2'' = (Some vol, None)
              \<and> DropletIDs vol = []"
    by blast
  have g2: "Storage_GetVolume (provider ?do2) ''vol-2''
     = (Some \<lparr>Volume.ID = ''vol-2'', Name = ''logs'', DropletIDs = []\<rparr>, None)"
    using r2 by (simp add: stub_provider_def stub_client_def stub_volumes_def)
  show ?thesis using g1 r1 c2 g2 by (simp add: prod_eq_iff)
qed

text \<open>
  C10. Whenever the vendor attach call returns no error, \<open>AttachVolume\<close> returns
  exactly the volume ID it was given; it returns a string without error in no other
  case.
\<close>

theorem AttachVolume_returns_volumeID:
  "(StorageActions_Attach (provider do) volumeID instanceID = None
      \<longrightarrow> fst (AttachVolume do instanceID volumeID tr) = Inr volumeID)
   \<and> (\<forall>s. fst (AttachVolume do instanceID volumeID tr) = Inr s
      \<longrightarrow> s = volumeID \<and> StorageActions_Attach (provider do) volumeID instanceID = None)"
  by (auto simp: AttachVolume_def Let_def split: option.splits)

theorem AttachVolume_returns_volumeID_witness:
  "StorageActions_Attach (provider (stub_provider (Inr []) [])) ''vol-1'' 7 = None
   \<and> fst (AttachVolume (stub_provider (Inr []) []) 7 ''vol-1'' []) = Inr ''vol-1''"
  using AttachVolume_returns_volumeID [of "stub_provider (Inr []) []" "''vol-1''" 7 "[]"]
  by (simp add: stub_provider_def stub_client_def)

lemma DisksAreAttached_init_eq:
  "DisksAreAttached_init volumeIDs attached =
     (\<lambda>k. if k \<in> set volumeIDs then Some False else attached k)"
  by (induction volumeIDs arbitrary: attached) (auto simp: fun_eq_iff)

lemma DisksAreAttached_mark_eq:
  "DisksAreAttached_mark ids instanceID volumeID attached =
     (if instanceID \<in> set ids then attached(volumeID \<mapsto> True) else attached)"
  by (induction ids arbitrary: attached) auto

lemma DisksAreAttached_loop_eq:
  "\<forall>volumeID \<in> set volumeIDs. Storage_GetVolume (provider do) volumeID \<noteq> (None, None) \<Longrightarrow>
   fst (DisksAreAttached_loop do volumeIDs instanceID attached tr) =
     Returned (\<lambda>k. if k \<in> set volumeIDs
              \<and> (case Storage_GetVolume (provider do) k of
                    (volume, err) \<Rightarrow> err = None
                      \<and> (case volume of None \<Rightarrow> False
                          | Some v \<Rightarrow> instanceID \<in> set (DropletIDs v)))
           then Some True else attached k)"
proof (induction volumeIDs arbitrary: attached tr)
  case Nil
  show ?case by simp
next
  case (Cons x xs)
  obtain volume err where g: "Storage_GetVolume (provider do) x = (volume, err)"
    by (cases "Storage_GetVolume (provider do) x")
  have rest: "\<forall>volumeID \<in> set xs. Storage_GetVolume (provider do) volumeID \<noteq> (None, None)"
    using Cons.prems by simp
  have here: "volume \<noteq> None \<or> err \<noteq> None"
    using Cons.prems g by auto
  show ?case
  proof (cases err)
    case (Some e)
    then show ?thesis
      by (auto simp: getVolume_def g Cons.IH [OF rest] fun_eq_iff)
  next
    case None
    then obtain v where v: "volume = Some v" using here by auto
    show ?thesis
      by (auto simp: getVolume_def g None v Cons.IH [OF rest] DisksAreAttached_mark_eq fun_eq_iff)
  qed
qed

text \<open>
  C5, as worded in the specification, has \<open>DisksAreAttached\<close> return a map for every
  list of volume IDs. Like every caller of the volume lookup in the adapter it tests
  only the error before it reads the volume: a lookup that answers neither a volume
  nor an error makes it panic.
\<close>

theorem DisksAreAttached_nil_volume_counterexample:
  "Storage_GetVolume (provider (stub_provider (Inr []) [(''vol-x'', None, None)])) ''vol-x''
     = (None, None)
   \<and> DisksAreAttached (stub_provider (Inr []) [(''vol-x'', None, None)]) [''vol-x''] 7 []
     = (Panicked ''invalid memory address or nil pointer dereference'',
        [Call_GetVolume ''vol-x''])"
  by (simp add: DisksAreAttached_def getVolume_def stub_provider_def stub_client_def
        stub_volumes_def)

text \<open>
  C5, amended. For every list of volume IDs and every instance ID, provided no
  lookup of a listed ID answers neither a volume nor an error, \<open>DisksAreAttached\<close>
  returns a map, without error. Its keys are the queried volume IDs; a volume whose
  lookup reported an error is marked false, and a volume whose lookup succeeded is
  marked true exactly when the instance ID is in its attachment list.
\<close>

theorem DisksAreAttached_marks:
  assumes "\<forall>volumeID \<in> set volumeIDs. Storage_GetVolume (provider do) volumeID \<noteq> (None, None)"
  shows "\<exists>attached. fst (DisksAreAttached do volumeIDs instanceID tr) = Returned (Inr attached)
     \<and> dom attached = set volumeIDs
     \<and> (\<forall>volumeID \<in> set volumeIDs. \<forall>volume err.
          Storage_GetVolume (provider do) volumeID = (volume, Some err)
          \<longrightarrow> attached volumeID = Some False)
     \<and> (\<forall>volumeID \<in> set volumeIDs. \<forall>volume.
          Storage_GetVolume (provider do) volumeID = (Some volume, None)
          \<longrightarrow> attached volumeID = Some (instanceID \<in> set (DropletIDs volume)))"
proof -
  define attached where "attached = (\<lambda>k. if k \<in> set volumeIDs
              \<and> (case Storage_GetVolume (provider do) k of
                    (volume, err) \<Rightarrow> err = None
                      \<and> (case volume of None \<Rightarrow> False
                          | Some v \<Rightarrow> instanceID \<in> set (DropletIDs v)))
           then Some True else if k \<in> set volumeIDs then Some False else None)"
  have l: "fst (DisksAreAttached_loop do volumeIDs instanceID
             (DisksAreAttached_init volumeIDs Map.empty) tr) = Returned attached"
    unfolding DisksAreAttached_loop_eq [OF assms] attached_def
    by (auto simp: fun_eq_iff DisksAreAttached_init_eq)
  have r: "fst (DisksAreAttached do volumeIDs instanceID tr) = Returned (Inr attached)"
    using l by (cases "DisksAreAttached_loop do volumeIDs instanceID
             (DisksAreAttached_init volumeIDs Map.empty) tr") (simp add: DisksAreAttached_def)
  have d: "dom attached = set volumeIDs"
    by (auto simp: attached_def dom_def)
  have e: "\<forall>volumeID \<in> set volumeIDs. \<forall>volume err.
          Storage_GetVolume (provider do) volumeID = (volume, Some err)
          \<longrightarrow> attached volumeID = Some False"
    by (simp add: attached_def)
  have s: "\<forall>volumeID \<in> set volumeIDs. \<forall>volume.
          Storage_GetVolume (provider do) volumeID = (Some volume, None)
          \<longrightarrow> attached volumeID = Some (instanceID \<in> set (DropletIDs volume))"
    by (simp add: attached_def)
  show ?thesis using r d e s by blast
qed

theorem DisksAreAttached_marks_witness:
  "fst (DisksAreAttached
     (stub_provider (Inr [])
        [(''vol-a'', Some \<lparr>Volume.ID = ''vol-a'', Name = ''a'', DropletIDs = [3, 7]\<rparr>, None),
         (''vol-b'', Some \<lparr>Volume.ID = ''vol-b'', Name = ''b'', DropletIDs = [5]\<rparr>, None)])
     [''vol-a'', ''vol-gone'', ''vol-b''] 7 [])
   = Returned (Inr [''vol-a'' \<mapsto> True, ''vol-gone'' \<mapsto> False, ''vol-b'' \<mapsto> False])"
proof -
  let ?do = "stub_provider (Inr [])
        [(''vol-a'', Some \<lparr>Volume.ID = ''vol-a'', Name = ''a'', DropletIDs = [3, 7]\<rparr>, None),
         (''vol-b'', Some \<lparr>Volume.ID = ''vol-b'', Name = ''b'', DropletIDs = [5]\<rparr>, None)]"
  have ga: "Storage_GetVolume (provider ?do) ''vol-a''
      = (Some \<lparr>Volume.ID = ''vol-a'', Name = ''a'', DropletIDs = [3, 7]\<rparr>, None)"
    by (simp add: stub_provider_def stub_client_def stub_volumes_def)
  have gb: "Storage_GetVolume (provider ?do) ''vol-b''
      = (Some \<lparr>Volume.ID = ''vol-b'', Name = ''b'', DropletIDs = [5]\<rparr>, None)"
    by (simp add: stub_provider_def stub_client_def stub_volumes_def)
  have gg: "Storage_GetVolume (provider ?do) ''vol-gone''
      = (None, Some (External ''volume lookup failed''))"
    by (simp add: stub_provider_def stub_client_def stub_volumes_def)
  have h: "\<forall>volumeID \<in> set [''vol-a'', ''vol-gone'', ''vol-b''].
      Storage_GetVolume (provider ?do) volumeID \<noteq> (None, None)"
    using ga gb gg by simp
  from DisksAreAttached_marks [OF h, of 7 "[]"]
  obtain attached where
    r: "fst (DisksAreAttached ?do [''vol-a'', ''vol-gone'', ''vol-b''] 7 []) = Returned (Inr attached)"
    and d: "dom attached = set [''vol-a'', ''vol-gone'', ''vol-b'']"
    and e: "\<forall>volumeID \<in> set [''vol-a'', ''vol-gone'', ''vol-b'']. \<forall>volume err.
          Storage_GetVolume (provider ?do) volumeID = (volume, Some err)
          \<longrightarrow> attached volumeID = Some False"
    and s: "\<forall>volumeID \<in> set [''vol-a'', ''vol-gone'', ''vol-b'']. \<forall>volume.
          Storage_GetVolume (provider ?do) volumeID = (Some volume, None)
          \<longrightarrow> attached volumeID = Some (7 \<in> set (DropletIDs volume))"
    by (elim exE conjE)
  have a: "attached ''vol-a'' = Some True" using s ga by simp
  have b: "attached ''vol-b'' = Some False" using s gb by simp
  have g: "attached ''vol-gone'' = Some False" using e gg by simp
  have n: "attached k = None" if "k \<noteq> ''vol-a''" "k \<noteq> ''vol-b''" "k \<noteq> ''vol-gone''" for k
  proof -
    have "k \<notin> dom attached" unfolding d using that by simp
    then show ?thesis by (simp add: dom_def)
  qed
  have "attached k = [''vol-a'' \<mapsto> True, ''vol-gone'' \<mapsto> False, ''vol-b'' \<mapsto> False] k" for k
  proof (cases "k = ''vol-a'' \<or> k = ''vol-b'' \<or> k = ''vol-gone''")
    case True
    then show ?thesis using a b g by (elim disjE) simp_all
  next
    case False
    then show ?thesis using n [of k] by simp
  qed
  then have "attached = [''vol-a'' \<mapsto> True, ''vol-gone'' \<mapsto> False, ''vol-b'' \<mapsto> False]"
    by (rule ext)
  then show ?thesis using r by simp
qed

subsection \<open>Device paths\<close>

lemma Contains_length: "Contains s substr \<Longrightarrow> length substr \<le> length s"
  by (auto simp: Contains_def sublist_def)

lemma GetDevicePath_step:
  "GetDevicePath (f # files) volumeId =
     (if Contains f ''scsi-0DO_Volume_''
         \<and> Contains volumeId (drop (length ''scsi-0DO_Volume_'') f)
      then Returned (path_Join [''/dev/disk/by-id/'', f])
      else GetDevicePath files volumeId)"
  using Contains_length [of f "''scsi-0DO_Volume_''"] by (auto simp: Let_def)

lemma GetDevicePath_returns: "\<exists>p. GetDevicePath files volumeId = Returned p"
  by (induction files) (simp_all add: GetDevicePath_step del: GetDevicePath.simps(2))

lemma prefix_Contains: "prefix p s \<Longrightarrow> Contains s p"
  by (auto simp: Contains_def prefix_def sublist_def intro: exI [of _ "[]"])

lemma GetDevicePath_prefix_step:
  "(Contains f ''scsi-0DO_Volume_'' \<longrightarrow> prefix ''scsi-0DO_Volume_'' f) \<Longrightarrow>
   GetDevicePath (f # files) volumeId =
     (if entry_matches volumeId f then Returned (path_Join [''/dev/disk/by-id/'', f])
      else GetDevicePath files volumeId)"
  using prefix_Contains [of "''scsi-0DO_Volume_''" f]
  by (auto simp: GetDevicePath_step entry_matches_def simp del: GetDevicePath.simps(2))

lemma GetDevicePath_scan_first:
  "\<forall>x \<in> set (pre @ f # post). Contains x ''scsi-0DO_Volume_'' \<longrightarrow> prefix ''scsi-0DO_Volume_'' x \<Longrightarrow>
   entry_matches volumeId f \<Longrightarrow> \<forall>x \<in> set pre. \<not> entry_matches volumeId x \<Longrightarrow>
   GetDevicePath (pre @ f # post) volumeId = Returned (path_Join [''/dev/disk/by-id/'', f])"
  by (induction pre) (simp_all add: GetDevicePath_prefix_step del: GetDevicePath.simps(2))

lemma GetDevicePath_scan_none:
  "\<forall>x \<in> set files. Contains x ''scsi-0DO_Volume_'' \<longrightarrow> prefix ''scsi-0DO_Volume_'' x \<Longrightarrow>
   \<forall>x \<in> set files. \<not> entry_matches volumeId x \<Longrightarrow>
   GetDevicePath files volumeId = Returned []"
  by (induction files) (simp_all add: GetDevicePath_prefix_step del: GetDevicePath.simps(2))

text \<open>
  On a listing in which the marker \<open>scsi-0DO_Volume_\<close> occurs in a name only as its
  prefix, the scan returns the directory path joined with the name of the first entry
  that has the marker as prefix and whose remainder occurs in the volume ID, and the
  empty string if no entry does.
\<close>

lemma GetDevicePath_prefix_only_listing:
  assumes "\<forall>f \<in> set files. Contains f ''scsi-0DO_Volume_'' \<longrightarrow> prefix ''scsi-0DO_Volume_'' f"
  shows "(\<forall>pre f post. files = pre @ f # post \<and> entry_matches volumeId f
             \<and> (\<forall>x \<in> set pre. \<not> entry_matches volumeId x)
           \<longrightarrow> GetDevicePath files volumeId = Returned (path_Join [''/dev/disk/by-id/'', f]))
     \<and> ((\<forall>x \<in> set files. \<not> entry_matches volumeId x)
           \<longrightarrow> GetDevicePath files volumeId = Returned [])"
  using assms GetDevicePath_scan_first GetDevicePath_scan_none by blast

lemma GetDevicePath_specification_example:
  "GetDevicePath [''sda'', ''scsi-0DO_Volume_abc123''] ''vol-abc123-nyc3''
       = Returned ''/dev/disk/by-id/scsi-0DO_Volume_abc123''
   \<and> GetDevicePath [''sda'', ''scsi-0DO_Volume_abc123''] ''vol-xyz'' = Returned []"
  by code_simp

text \<open>
  C8. The specification has \<open>GetDevicePath\<close> return the path of an entry whose name
  has the prefix \<open>scsi-0DO_Volume_\<close> and whose remainder after the prefix occurs in
  the volume ID, and the empty string when no entry matches. The code cuts the
  remainder after the sixteen bytes of the marker, as for a prefix, but tests the
  marker with \<open>strings.Contains\<close>. A name that carries the marker further inside is
  therefore accepted on the strength of its last bytes: with the single entry
  \<open>xscsi-0DO_Volume_\<close> and the volume ID \<open>a_b\<close> no entry matches, yet a path is
  returned; and listed before the matching entry \<open>scsi-0DO_Volume_b\<close>, that name
  wins over it.
\<close>

theorem GetDevicePath_marker_inside_name:
  "\<not> prefix ''scsi-0DO_Volume_'' ''xscsi-0DO_Volume_''
   \<and> \<not> entry_matches ''a_b'' ''xscsi-0DO_Volume_''
   \<and> GetDevicePath [''xscsi-0DO_Volume_''] ''a_b''
       = Returned ''/dev/disk/by-id/xscsi-0DO_Volume_''
   \<and> entry_matches ''a_b'' ''scsi-0DO_Volume_b''
   \<and> GetDevicePath [''xscsi-0DO_Volume_'', ''scsi-0DO_Volume_b''] ''a_b''
       = Returned ''/dev/disk/by-id/xscsi-0DO_Volume_''"
  by code_simp

end
